theory Spec2Isabelle
  imports Main
begin

section \<open>Errors\<close>

text \<open>
  Go errors are interface values. The model has the sentinel of the timeout package
  (\<^verbatim>\<open>ErrTimeoutExceeded\<close>), any other plain error, an error wrapping one error
  (\<^verbatim>\<open>Unwrap() error\<close>, as built by \<^verbatim>\<open>fmt.Errorf("%w")\<close>) and an error wrapping
  several (\<^verbatim>\<open>Unwrap() []error\<close>, as built by \<^verbatim>\<open>errors.Join\<close>). A nil error is
  \<open>None\<close> of \<open>error option\<close>.
\<close>

datatype error =
    ErrTimeoutExceeded
  | ErrOther string
  | ErrWrap string error
  | ErrJoin "error list"

text \<open>
  The loop of the standard library's \<^verbatim>\<open>errors.Is\<close>: compare, then follow
  \<^verbatim>\<open>Unwrap\<close>, depth first through a joined error.
\<close>

fun is_loop :: "error \<Rightarrow> error \<Rightarrow> bool" where
  "is_loop (ErrWrap m inner) target = (ErrWrap m inner = target \<or> is_loop inner target)"
| "is_loop (ErrJoin es) target = (ErrJoin es = target \<or> (\<exists>e \<in> set es. is_loop e target))"
| "is_loop err target = (err = target)"

definition errors_Is :: "error option \<Rightarrow> error option \<Rightarrow> bool" where
  "errors_Is err target =
     (if err = None \<or> target = None then err = target
      else is_loop (the err) (the target))"

text \<open>
  The words of the specification, "is, or wraps": \<open>wraps a b\<close> when \<open>b\<close> is reached from
  \<open>a\<close> by one or more unwrapping steps.
\<close>

inductive wraps :: "error \<Rightarrow> error \<Rightarrow> bool" where
  wraps_one: "wraps (ErrWrap m e) e"
| wraps_join: "e \<in> set es \<Longrightarrow> wraps (ErrJoin es) e"
| wraps_trans: "wraps a b \<Longrightarrow> wraps b c \<Longrightarrow> wraps a c"

definition is_or_wraps :: "error \<Rightarrow> error \<Rightarrow> bool" where
  "is_or_wraps e target = (e = target \<or> wraps e target)"

section \<open>Results of an attempt\<close>

text \<open>
  \<^verbatim>\<open>ExecutionResult[R]\<close>. The executor names the error field \<^verbatim>\<open>Err\<close>, the timeout
  package \<^verbatim>\<open>Error\<close>; it is one field here. Results travel as pointers that are not nil
  (each is allocated by a composite literal), so a result is a value; the one pointer that
  can be nil, the atomic pointer of the timeout, is an \<open>option\<close>.
\<close>

record 'r ExecutionResult =
  Result :: 'r
  Err :: "error option"
  Complete :: bool
  Success :: bool
  SuccessAll :: bool

text \<open>\<^verbatim>\<open>timeoutExecutor.IsFailure\<close>\<close>

definition IsFailure :: "'r ExecutionResult \<Rightarrow> bool" where
  "IsFailure result = (Err result \<noteq> None \<and> errors_Is (Err result) (Some ErrTimeoutExceeded))"


section \<open>The execution shared by the user function and the policies\<close>

text \<open>
  \<^verbatim>\<open>ExecutionInternal[R]\<close> as \<^verbatim>\<open>execute\<close> builds it: the embedded statistics
  (\<^verbatim>\<open>Executions\<close>), the channel \<^verbatim>\<open>canceled\<close> (\<open>True\<close> once closed), the cell
  \<^verbatim>\<open>canceledIndex\<close> points to, and \<^verbatim>\<open>Context\<close>. The mutex adds nothing to a
  state that is passed along. \<open>canceledResult\<close> is the field the specification gives for the
  result handed to \<^verbatim>\<open>Cancel\<close>. A context is known by a number; what it does is the
  environment's.
\<close>

type_synonym Context = nat

record 'r ExecutionInternal =
  Executions :: int
  canceled :: bool
  canceledIndex :: int
  canceledResult :: "'r ExecutionResult option"
  Context :: "Context option"

text \<open>\<^verbatim>\<open>math.MaxInt\<close> on a 64-bit platform.\<close>

definition MaxInt :: int where
  "MaxInt = 2 ^ 63 - 1"

text \<open>
  Modelled from the spec: \<^verbatim>\<open>Cancel\<close> is declared outside the given sources. "If already
  canceled (\<^verbatim>\<open>canceledIndex \<noteq> -1\<close>), return false. Store \<^verbatim>\<open>canceledIndex =
  policyIndex\<close>, store \<^verbatim>\<open>canceledResult = result\<close>, close the cancellation channel.
  Return true."
\<close>

definition Cancel ::
  "int \<Rightarrow> 'r ExecutionResult \<Rightarrow> 'r ExecutionInternal \<Rightarrow> bool \<times> 'r ExecutionInternal" where
  "Cancel policyIndex result x =
     (if canceledIndex x \<noteq> - 1 then (False, x)
      else (True, x\<lparr>canceledIndex := policyIndex, canceledResult := Some result,
                     canceled := True\<rparr>))"

text \<open>
  Modelled from the spec: \<^verbatim>\<open>internal.FailureResult\<close> is declared outside the given
  sources. "construct \<^verbatim>\<open>{Err: ErrTimeoutExceeded, Complete: true, Success: false,
  SuccessAll: false}\<close>"; the result field keeps the zero value of \<^verbatim>\<open>R\<close>.
\<close>

definition FailureResult :: "'r \<Rightarrow> error \<Rightarrow> 'r ExecutionResult" where
  "FailureResult zero err =
     \<lparr>Result = zero, Err = Some err, Complete = True, Success = False, SuccessAll = False\<rparr>"

text \<open>
  \<^verbatim>\<open>ExecutionCompletedEvent[R]\<close>: result, error and the statistics (of which the model
  has \<^verbatim>\<open>Executions\<close>).
\<close>

record 'r ExecutionCompletedEvent =
  evResult :: 'r
  evError :: "error option"
  evExecutions :: int

text \<open>
  Modelled from the spec: \<^verbatim>\<open>newExecutionCompletedEvent\<close> is declared outside the given
  sources. "\<^verbatim>\<open>ExecutionCompletedEvent<R>\<close> carries: \<^verbatim>\<open>Result\<close>, \<^verbatim>\<open>Error\<close>, and a
  snapshot of \<^verbatim>\<open>ExecutionStats\<close>."
\<close>

definition newExecutionCompletedEvent ::
  "'r ExecutionResult \<Rightarrow> 'r ExecutionInternal \<Rightarrow> 'r ExecutionCompletedEvent" where
  "newExecutionCompletedEvent er x =
     \<lparr>evResult = Result er, evError = Err er, evExecutions = Executions x\<rparr>"

text \<open>
  What runs on the caller's thread is a function of the world: the execution, the state
  \<open>user\<close> that the user's function and listeners close over, and a log of the calls made
  to them (\<open>trace\<close>, kept for the statements only). \<open>None\<close> is a panic.
\<close>

datatype 'r call =
    UserFn
  | OnSuccessCall "'r ExecutionCompletedEvent"
  | OnFailureCall "'r ExecutionCompletedEvent"
  | OnCompleteCall "'r ExecutionCompletedEvent"

record ('r, 'u) world =
  exec :: "'r ExecutionInternal"
  user :: 'u
  trace :: "'r call list"

type_synonym ('r, 'u) exec_fn = "('r, 'u) world \<Rightarrow> ('r ExecutionResult \<times> ('r, 'u) world) option"

text \<open>
  A policy is what the executor uses of it: \<open>p policyIndex innerFn\<close> is
  \<^verbatim>\<open>p.ToExecutor(policyIndex).Apply(innerFn)\<close>.
\<close>

type_synonym ('r, 'u) Policy = "int \<Rightarrow> ('r, 'u) exec_fn \<Rightarrow> ('r, 'u) exec_fn"

type_synonym ('r, 'u) listener = "'r ExecutionCompletedEvent \<Rightarrow> 'u \<Rightarrow> 'u option"

text \<open>
  \<^verbatim>\<open>Record\<close> and \<^verbatim>\<open>InitializeAttempt\<close> of \<^verbatim>\<open>ExecutionInternal\<close> are declared outside
  the given sources; the executor takes them as they are.
\<close>

record 'r spi =
  Record :: "'r ExecutionResult \<Rightarrow> 'r ExecutionInternal \<Rightarrow> 'r ExecutionResult \<times> 'r ExecutionInternal"
  InitializeAttempt :: "int \<Rightarrow> 'r ExecutionInternal \<Rightarrow> bool \<times> 'r ExecutionInternal"

section \<open>The executor\<close>

text \<open>
  \<^verbatim>\<open>executor[R]\<close>. The slice \<^verbatim>\<open>policies\<close> is the list of its elements, outermost
  first. A nil context or listener is \<open>None\<close>.
\<close>

record ('r, 'u) executor =
  policies :: "('r, 'u) Policy list"
  ctx :: "Context option"
  onComplete :: "('r, 'u) listener option"
  onSuccess :: "('r, 'u) listener option"
  onFailure :: "('r, 'u) listener option"

text \<open>
  The methods have pointer receivers, and all but \<^verbatim>\<open>WithContext\<close> return the receiver.
  Executors live in a heap (a pointer is an index into it); a method takes the heap and
  returns the pointer it returns together with the heap it leaves.
\<close>

type_synonym ('r, 'u) heap = "('r, 'u) executor list"

definition With ::
  "('r, 'u) Policy \<Rightarrow> ('r, 'u) Policy list \<Rightarrow> ('r, 'u) heap \<Rightarrow> nat \<times> ('r, 'u) heap" where
  "With outerPolicy ps h =
     (length h, h @ [\<lparr>policies = [outerPolicy] @ ps, ctx = None, onComplete = None,
                      onSuccess = None, onFailure = None\<rparr>])"

definition Compose ::
  "('r, 'u) Policy \<Rightarrow> nat \<Rightarrow> ('r, 'u) heap \<Rightarrow> nat \<times> ('r, 'u) heap" where
  "Compose innerPolicy e h = (e, h[e := (h ! e)\<lparr>policies := policies (h ! e) @ [innerPolicy]\<rparr>])"

definition WithContext ::
  "Context option \<Rightarrow> nat \<Rightarrow> ('r, 'u) heap \<Rightarrow> nat \<times> ('r, 'u) heap" where
  "WithContext c e h = (length h, h @ [(h ! e)\<lparr>ctx := c\<rparr>])"

definition OnComplete ::
  "('r, 'u) listener option \<Rightarrow> nat \<Rightarrow> ('r, 'u) heap \<Rightarrow> nat \<times> ('r, 'u) heap" where
  "OnComplete l e h = (e, h[e := (h ! e)\<lparr>onComplete := l\<rparr>])"

definition OnSuccess ::
  "('r, 'u) listener option \<Rightarrow> nat \<Rightarrow> ('r, 'u) heap \<Rightarrow> nat \<times> ('r, 'u) heap" where
  "OnSuccess l e h = (e, h[e := (h ! e)\<lparr>onSuccess := l\<rparr>])"

definition OnFailure ::
  "('r, 'u) listener option \<Rightarrow> nat \<Rightarrow> ('r, 'u) heap \<Rightarrow> nat \<times> ('r, 'u) heap" where
  "OnFailure l e h = (e, h[e := (h ! e)\<lparr>onFailure := l\<rparr>])"

text \<open>
  The innermost function of \<^verbatim>\<open>execute\<close> (its first \<^verbatim>\<open>outerFn\<close>): call the user's
  function, wrap what it returns, count the execution, record the result.
\<close>

definition userAttempt ::
  "'r spi \<Rightarrow> ('r ExecutionInternal \<Rightarrow> 'u \<Rightarrow> (('r \<times> error option) \<times> 'u) option) \<Rightarrow> ('r, 'u) exec_fn" where
  "userAttempt sp fn w =
     (case fn (exec w) (user w) of
        None \<Rightarrow> None
      | Some ((result, err), u') \<Rightarrow>
          (let er = \<lparr>Result = result, Err = err, Complete = True, Success = True,
                     SuccessAll = True\<rparr>;
               x1 = (exec w)\<lparr>Executions := Executions (exec w) + 1\<rparr>;
               (r, x2) = Record sp er x1
           in Some (r, w\<lparr>exec := x2, user := u', trace := trace w @ [UserFn]\<rparr>)))"

text \<open>
  The composition loop of \<^verbatim>\<open>execute\<close>, \<^verbatim>\<open>for i, policyIndex := len(e.policies)-1, 0;
  i >= 0; i, policyIndex = i-1, policyIndex+1\<close>. Beside the function built so far it keeps
  the list of the calls of \<^verbatim>\<open>ToExecutor\<close> it made, each as the position \<open>i\<close> of the
  policy in \<^verbatim>\<open>e.policies\<close> and the index passed.
\<close>

function compose_loop ::
  "('r, 'u) Policy list \<Rightarrow> int \<Rightarrow> int \<Rightarrow> ('r, 'u) exec_fn \<times> (int \<times> int) list
     \<Rightarrow> ('r, 'u) exec_fn \<times> (int \<times> int) list" where
  "compose_loop ps i policyIndex (outerFn, calls) =
     (if i \<ge> 0
      then compose_loop ps (i - 1) (policyIndex + 1)
             ((ps ! nat i) policyIndex outerFn, calls @ [(i, policyIndex)])
      else (outerFn, calls))"
  by pat_completeness auto
termination
  by (relation "measure (\<lambda>(ps, i, policyIndex, acc). nat (i + 1))") auto

declare compose_loop.simps [simp del]

definition compose ::
  "'r spi \<Rightarrow> ('r, 'u) executor
     \<Rightarrow> ('r ExecutionInternal \<Rightarrow> 'u \<Rightarrow> (('r \<times> error option) \<times> 'u) option)
     \<Rightarrow> ('r, 'u) exec_fn \<times> (int \<times> int) list" where
  "compose sp e fn =
     compose_loop (policies e) (int (length (policies e)) - 1) 0 (userAttempt sp fn, [])"

definition composed ::
  "'r spi \<Rightarrow> ('r, 'u) executor
     \<Rightarrow> ('r ExecutionInternal \<Rightarrow> 'u \<Rightarrow> (('r \<times> error option) \<times> 'u) option) \<Rightarrow> ('r, 'u) exec_fn" where
  "composed sp e fn = fst (compose sp e fn)"

definition ToExecutor_calls ::
  "'r spi \<Rightarrow> ('r, 'u) executor
     \<Rightarrow> ('r ExecutionInternal \<Rightarrow> 'u \<Rightarrow> (('r \<times> error option) \<times> 'u) option) \<Rightarrow> (int \<times> int) list" where
  "ToExecutor_calls sp e fn = snd (compose sp e fn)"

text \<open>The execution \<^verbatim>\<open>execute\<close> prepares, after \<^verbatim>\<open>InitializeAttempt(canceledIndex)\<close>.\<close>

definition newExecution :: "'r spi \<Rightarrow> ('r, 'u) executor \<Rightarrow> 'r ExecutionInternal" where
  "newExecution sp e =
     (let canceledIndex = - 1;
          execInternal = \<lparr>Executions = 0, canceled = False, canceledIndex = canceledIndex,
                          canceledResult = None, Context = ctx e\<rparr>
      in snd (InitializeAttempt sp canceledIndex execInternal))"

text \<open>The end of \<^verbatim>\<open>execute\<close>: the listeners, called with the terminal result.\<close>

definition call_listener ::
  "('r, 'u) listener \<Rightarrow> 'r call \<Rightarrow> 'r ExecutionCompletedEvent \<Rightarrow> ('r, 'u) world
     \<Rightarrow> ('r, 'u) world option" where
  "call_listener l c ev w =
     (case l ev (user w) of
        None \<Rightarrow> None
      | Some u' \<Rightarrow> Some (w\<lparr>user := u', trace := trace w @ [c]\<rparr>))"

definition call_listeners ::
  "('r, 'u) executor \<Rightarrow> 'r ExecutionResult \<Rightarrow> ('r, 'u) world \<Rightarrow> ('r, 'u) world option" where
  "call_listeners e er w =
     (let ev = newExecutionCompletedEvent er (exec w);
          w1 = (if onSuccess e \<noteq> None \<and> SuccessAll er
                then call_listener (the (onSuccess e)) (OnSuccessCall ev) ev w
                else if onFailure e \<noteq> None \<and> \<not> SuccessAll er
                then call_listener (the (onFailure e)) (OnFailureCall ev) ev w
                else Some w)
      in case w1 of
           None \<Rightarrow> None
         | Some w2 \<Rightarrow>
             (if onComplete e \<noteq> None
              then call_listener (the (onComplete e)) (OnCompleteCall ev) ev w2
              else Some w2))"

text \<open>
  \<^verbatim>\<open>execute\<close>, on the caller's thread, from the state \<open>u0\<close> of the user's world. It
  returns \<^verbatim>\<open>(er.Result, er.Err)\<close> and, for the statements, the world it leaves.
\<close>

definition execute ::
  "'r spi \<Rightarrow> ('r, 'u) executor
     \<Rightarrow> ('r ExecutionInternal \<Rightarrow> 'u \<Rightarrow> (('r \<times> error option) \<times> 'u) option) \<Rightarrow> bool \<Rightarrow> 'u
     \<Rightarrow> (('r \<times> error option) \<times> ('r, 'u) world) option" where
  "execute sp e fn withExecution u0 =
     (case composed sp e fn \<lparr>exec = newExecution sp e, user = u0, trace = []\<rparr> of
        None \<Rightarrow> None
      | Some (er, w1) \<Rightarrow>
          (case call_listeners e er w1 of
             None \<Rightarrow> None
           | Some w2 \<Rightarrow> Some ((Result er, Err er), w2)))"

text \<open>The four entries; \<open>zero\<close> is \<^verbatim>\<open>*(new(R))\<close>.\<close>

definition Run ::
  "'r spi \<Rightarrow> 'r \<Rightarrow> ('r, 'u) executor \<Rightarrow> ('u \<Rightarrow> (error option \<times> 'u) option) \<Rightarrow> 'u
     \<Rightarrow> (error option \<times> ('r, 'u) world) option" where
  "Run sp zero e fn u0 =
     map_option (\<lambda>((_, err), w). (err, w))
       (execute sp e (\<lambda>ex u. map_option (\<lambda>(err, u'). ((zero, err), u')) (fn u)) False u0)"

definition RunWithExecution ::
  "'r spi \<Rightarrow> 'r \<Rightarrow> ('r, 'u) executor
     \<Rightarrow> ('r ExecutionInternal \<Rightarrow> 'u \<Rightarrow> (error option \<times> 'u) option) \<Rightarrow> 'u
     \<Rightarrow> (error option \<times> ('r, 'u) world) option" where
  "RunWithExecution sp zero e fn u0 =
     map_option (\<lambda>((_, err), w). (err, w))
       (execute sp e (\<lambda>ex u. map_option (\<lambda>(err, u'). ((zero, err), u')) (fn ex u)) True u0)"

definition Get ::
  "'r spi \<Rightarrow> ('r, 'u) executor \<Rightarrow> ('u \<Rightarrow> (('r \<times> error option) \<times> 'u) option) \<Rightarrow> 'u
     \<Rightarrow> (('r \<times> error option) \<times> ('r, 'u) world) option" where
  "Get sp e fn u0 = execute sp e (\<lambda>ex u. fn u) False u0"

definition GetWithExecution ::
  "'r spi \<Rightarrow> ('r, 'u) executor
     \<Rightarrow> ('r ExecutionInternal \<Rightarrow> 'u \<Rightarrow> (('r \<times> error option) \<times> 'u) option) \<Rightarrow> 'u
     \<Rightarrow> (('r \<times> error option) \<times> ('r, 'u) world) option" where
  "GetWithExecution sp e fn u0 = execute sp e (\<lambda>ex u. fn ex u) True u0"

text \<open>
  The goroutine \<^verbatim>\<open>execute\<close> starts when a context is attached. Its \<^verbatim>\<open>select\<close> takes
  one of two cases; on \<^verbatim>\<open>ctx.Done()\<close> it makes one call of \<^verbatim>\<open>Cancel\<close>, with
  \<open>ctxErr\<close> what \<^verbatim>\<open>ctx.Err()\<close> returns then. \<open>watcher\<close> gives the call made, if any.
\<close>

datatype watcher_event = CtxDone | ExecutionDone

datatype 'r cancel_call = CancelCall int "'r ExecutionResult"

definition watcher :: "'r \<Rightarrow> error option \<Rightarrow> watcher_event \<Rightarrow> 'r cancel_call option" where
  "watcher zero ctxErr ev =
     (case ev of
        CtxDone \<Rightarrow>
          Some (CancelCall MaxInt
                  \<lparr>Result = zero, Err = ctxErr, Complete = True, Success = False,
                   SuccessAll = False\<rparr>)
      | ExecutionDone \<Rightarrow> None)"

definition watcher_started :: "('r, 'u) executor \<Rightarrow> bool" where
  "watcher_started e = (ctx e \<noteq> None)"



section \<open>The timeout policy\<close>

text \<open>
  \<^verbatim>\<open>timeoutExecutor[R]\<close>: the index of the embedded \<^verbatim>\<open>BasePolicyExecutor\<close>, the
  listener of the configuration, and \<^verbatim>\<open>PostExecute\<close> of the base executor, which is
  declared outside the given sources and taken as it is. The delay of the configuration
  decides when the timer fires; here the schedule does.
\<close>

record ('r, 'u) timeoutExecutor =
  PolicyIndex :: int
  onTimeoutExceeded :: "('r, 'u) listener option"
  PostExecute :: "'r ExecutionResult \<Rightarrow> ('r, 'u) exec_fn"

text \<open>
  The function \<^verbatim>\<open>Apply\<close> returns runs two threads: the caller's, and the callback of
  \<^verbatim>\<open>time.AfterFunc\<close>. Each is cut at its operations on what they share (the atomic
  pointer \<^verbatim>\<open>result\<close>, the timer, the execution), which are atomic; a schedule says
  which thread takes the next step.

  The caller: \<open>MInner\<close> before \<^verbatim>\<open>innerFn(exec)\<close> returns, \<open>MCas r\<close> before its
  compare-and-swap, \<open>MStop\<close> before \<^verbatim>\<open>timer.Stop()\<close>, \<open>MPost\<close> before
  \<^verbatim>\<open>PostExecute(execInternal, result.Load())\<close>, \<open>MDone r\<close> returned \<open>r\<close>, \<open>MPanic\<close>
  a panic, \<open>MNil\<close> a nil pointer loaded.

  The timer: \<open>TArmed\<close> not fired, \<open>TStopped\<close> stopped before firing, \<open>TFired\<close> callback
  before its compare-and-swap, \<open>TCancel\<close> before \<^verbatim>\<open>Cancel\<close>, \<open>TListener\<close> before the
  listener, \<open>TDone\<close> callback returned, \<open>TPanic\<close> the listener panicked (which ends the
  program).
\<close>

datatype thread = Timer | Inline

datatype 'r main_pc =
  MInner | MCas "'r ExecutionResult" | MStop | MPost | MDone "'r ExecutionResult" | MPanic | MNil

datatype timer_pc = TArmed | TStopped | TFired | TCancel | TListener | TDone | TPanic

text \<open>
  \<open>slot\<close> is the atomic pointer. The last six fields are logs for the statements: who won
  a compare-and-swap, what the inner function returned, the calls of \<^verbatim>\<open>Cancel\<close>, the
  events given to the listener, the calls of \<^verbatim>\<open>timer.Stop\<close>, and the arguments of
  \<^verbatim>\<open>PostExecute\<close>.
\<close>

record ('r, 'u) timeout_cfg =
  slot :: "'r ExecutionResult option"
  mainPc :: "'r main_pc"
  timerPc :: timer_pc
  tworld :: "('r, 'u) world"
  casWinners :: "thread list"
  innerResult :: "'r ExecutionResult option"
  cancelCalls :: "'r cancel_call list"
  timeoutEvents :: "'r ExecutionCompletedEvent list"
  stopCalls :: nat
  postExecuteCall :: "('r ExecutionResult \<times> ('r, 'u) world) option"

definition init_cfg :: "('r, 'u) world \<Rightarrow> ('r, 'u) timeout_cfg" where
  "init_cfg w =
     \<lparr>slot = None, mainPc = MInner, timerPc = TArmed, tworld = w, casWinners = [],
      innerResult = None, cancelCalls = [], timeoutEvents = [], stopCalls = 0,
      postExecuteCall = None\<rparr>"

definition timeoutEvent :: "'r \<Rightarrow> 'r ExecutionInternal \<Rightarrow> 'r ExecutionCompletedEvent" where
  "timeoutEvent zero x =
     \<lparr>evResult = zero, evError = Some ErrTimeoutExceeded, evExecutions = Executions x\<rparr>"

definition main_step ::
  "('r, 'u) timeoutExecutor \<Rightarrow> ('r, 'u) exec_fn \<Rightarrow> ('r, 'u) timeout_cfg \<Rightarrow> ('r, 'u) timeout_cfg" where
  "main_step te innerFn c =
     (case mainPc c of
        MInner \<Rightarrow>
          (case innerFn (tworld c) of
             None \<Rightarrow> c\<lparr>mainPc := MPanic\<rparr>
           | Some (r, w') \<Rightarrow> c\<lparr>tworld := w', mainPc := MCas r, innerResult := Some r\<rparr>)
      | MCas r \<Rightarrow>
          (if slot c = None
           then c\<lparr>slot := Some r, mainPc := MStop, casWinners := casWinners c @ [Inline]\<rparr>
           else c\<lparr>mainPc := MPost\<rparr>)
      | MStop \<Rightarrow>
          c\<lparr>timerPc := (if timerPc c = TArmed then TStopped else timerPc c),
            stopCalls := stopCalls c + 1, mainPc := MPost\<rparr>
      | MPost \<Rightarrow>
          (case slot c of
             None \<Rightarrow> c\<lparr>mainPc := MNil\<rparr>
           | Some r \<Rightarrow>
               (case PostExecute te r (tworld c) of
                  None \<Rightarrow> c\<lparr>mainPc := MPanic, postExecuteCall := Some (r, tworld c)\<rparr>
                | Some (r', w') \<Rightarrow>
                    c\<lparr>tworld := w', mainPc := MDone r',
                      postExecuteCall := Some (r, tworld c)\<rparr>))
      | _ \<Rightarrow> c)"

definition timer_step ::
  "'r \<Rightarrow> ('r, 'u) timeoutExecutor \<Rightarrow> ('r, 'u) timeout_cfg \<Rightarrow> ('r, 'u) timeout_cfg" where
  "timer_step zero te c =
     (let timeoutResult = FailureResult zero ErrTimeoutExceeded in
      case timerPc c of
        TArmed \<Rightarrow> c\<lparr>timerPc := TFired\<rparr>
      | TFired \<Rightarrow>
          (if slot c = None
           then c\<lparr>slot := Some timeoutResult, timerPc := TCancel,
                  casWinners := casWinners c @ [Timer]\<rparr>
           else c\<lparr>timerPc := TDone\<rparr>)
      | TCancel \<Rightarrow>
          c\<lparr>tworld := (tworld c)\<lparr>exec := snd (Cancel (PolicyIndex te) timeoutResult
                                                  (exec (tworld c)))\<rparr>,
            cancelCalls := cancelCalls c @ [CancelCall (PolicyIndex te) timeoutResult],
            timerPc := TListener\<rparr>
      | TListener \<Rightarrow>
          (case onTimeoutExceeded te of
             None \<Rightarrow> c\<lparr>timerPc := TDone\<rparr>
           | Some l \<Rightarrow>
               (let ev = timeoutEvent zero (exec (tworld c)) in
                case l ev (user (tworld c)) of
                  None \<Rightarrow>
                    c\<lparr>timeoutEvents := timeoutEvents c @ [ev], timerPc := TPanic,
                      mainPc := MPanic\<rparr>
                | Some u' \<Rightarrow>
                    c\<lparr>tworld := (tworld c)\<lparr>user := u'\<rparr>,
                      timeoutEvents := timeoutEvents c @ [ev], timerPc := TDone\<rparr>))
      | _ \<Rightarrow> c)"

definition step ::
  "'r \<Rightarrow> ('r, 'u) timeoutExecutor \<Rightarrow> ('r, 'u) exec_fn \<Rightarrow> thread \<Rightarrow> ('r, 'u) timeout_cfg
     \<Rightarrow> ('r, 'u) timeout_cfg" where
  "step zero te innerFn t c =
     (case t of Timer \<Rightarrow> timer_step zero te c | Inline \<Rightarrow> main_step te innerFn c)"

definition run ::
  "'r \<Rightarrow> ('r, 'u) timeoutExecutor \<Rightarrow> ('r, 'u) exec_fn \<Rightarrow> thread list \<Rightarrow> ('r, 'u) timeout_cfg
     \<Rightarrow> ('r, 'u) timeout_cfg" where
  "run zero te innerFn sched c = fold (step zero te innerFn) sched c"



section \<open>Notions used in the statements\<close>

text \<open>
  A chain of method calls such as \<^verbatim>\<open>With(a).Compose(b)\<close>: \<open>then_call\<close> hands the
  pointer and the heap of one call to the next, \<open>deref\<close> reads the executor the last
  call returned.
\<close>

definition then_call ::
  "nat \<times> ('r, 'u) heap \<Rightarrow> (nat \<Rightarrow> ('r, 'u) heap \<Rightarrow> nat \<times> ('r, 'u) heap) \<Rightarrow> nat \<times> ('r, 'u) heap" where
  "then_call eh m = m (fst eh) (snd eh)"

definition deref :: "nat \<times> ('r, 'u) heap \<Rightarrow> ('r, 'u) executor" where
  "deref eh = snd eh ! fst eh"


text \<open>What holds of every configuration the two threads of the timeout can reach.\<close>

definition tinv :: "'r \<Rightarrow> ('r, 'u) timeoutExecutor \<Rightarrow> ('r, 'u) timeout_cfg \<Rightarrow> bool" where
  "tinv zero te c =
     (let tr = FailureResult zero ErrTimeoutExceeded; call = CancelCall (PolicyIndex te) tr in
      (casWinners c = [] \<and> slot c = None
         \<or> casWinners c = [Timer] \<and> slot c = Some tr
         \<or> casWinners c = [Inline] \<and> (\<exists>r. slot c = Some r \<and> innerResult c = Some r))
    \<and> (timerPc c \<in> {TArmed, TStopped, TFired} \<longrightarrow>
          casWinners c \<noteq> [Timer] \<and> cancelCalls c = [] \<and> timeoutEvents c = [])
    \<and> (timerPc c = TCancel \<longrightarrow>
          casWinners c = [Timer] \<and> cancelCalls c = [] \<and> timeoutEvents c = [])
    \<and> (timerPc c = TListener \<longrightarrow>
          casWinners c = [Timer] \<and> cancelCalls c = [call] \<and> timeoutEvents c = [])
    \<and> (timerPc c = TDone \<longrightarrow>
          casWinners c = [Timer] \<and> cancelCalls c = [call]
            \<and> length (timeoutEvents c) = (if onTimeoutExceeded te = None then 0 else 1)
          \<or> casWinners c = [Inline] \<and> cancelCalls c = [] \<and> timeoutEvents c = [])
    \<and> (timerPc c = TPanic \<longrightarrow>
          casWinners c = [Timer] \<and> cancelCalls c = [call] \<and> length (timeoutEvents c) = 1
            \<and> mainPc c = MPanic)
    \<and> (mainPc c = MInner \<longrightarrow> casWinners c \<noteq> [Inline] \<and> innerResult c = None)
    \<and> (\<forall>r. mainPc c = MCas r \<longrightarrow> casWinners c \<noteq> [Inline] \<and> innerResult c = Some r)
    \<and> (mainPc c = MStop \<longrightarrow> casWinners c = [Inline])
    \<and> (mainPc c = MPost \<longrightarrow>
          slot c \<noteq> None \<and> (casWinners c = [Inline] \<longrightarrow> timerPc c \<noteq> TArmed))
    \<and> (\<forall>r. mainPc c = MDone r \<longrightarrow>
          slot c \<noteq> None
            \<and> (casWinners c = [Inline] \<longrightarrow> timerPc c \<noteq> TArmed)
            \<and> (\<exists>w0 w1. postExecuteCall c = Some (the (slot c), w0)
                  \<and> PostExecute te (the (slot c)) w0 = Some (r, w1)))
    \<and> mainPc c \<noteq> MNil
    \<and> stopCalls c = (if casWinners c = [Inline] \<and> mainPc c \<noteq> MStop then 1 else 0))"

section \<open>Concrete inputs\<close>

text \<open>
  Results are numbers, the user's world is a counter. \<open>ex_fn\<close> succeeds; \<open>ex_flaky\<close>
  fails on its first call only. \<open>ex_retry\<close> calls the inner function once more after an
  error; \<open>ex_pass\<close> only calls it.
\<close>

definition ex_sp :: "nat spi" where
  "ex_sp = \<lparr>Record = (\<lambda>er x. (er, x)), InitializeAttempt = (\<lambda>k x. (True, x))\<rparr>"

definition ex_pass :: "(nat, nat) Policy" where
  "ex_pass policyIndex innerFn = innerFn"

definition ex_retry :: "(nat, nat) Policy" where
  "ex_retry policyIndex innerFn w =
     (case innerFn w of
        None \<Rightarrow> None
      | Some (r, w1) \<Rightarrow> if Err r \<noteq> None then innerFn w1 else Some (r, w1))"

definition ex_fn :: "nat ExecutionInternal \<Rightarrow> nat \<Rightarrow> ((nat \<times> error option) \<times> nat) option" where
  "ex_fn ex u = Some ((42, None), u + 1)"


definition ex_listener :: "(nat, nat) listener" where
  "ex_listener ev u = Some (u + 10)"

definition ex_executor :: "(nat, nat) Policy list \<Rightarrow> (nat, nat) executor" where
  "ex_executor ps =
     \<lparr>policies = ps, ctx = None, onComplete = Some ex_listener, onSuccess = Some ex_listener,
      onFailure = Some ex_listener\<rparr>"

definition ex_te :: "(nat, nat) timeoutExecutor" where
  "ex_te =
     \<lparr>PolicyIndex = 0, onTimeoutExceeded = Some ex_listener,
      PostExecute = (\<lambda>r w. Some (if IsFailure r then r\<lparr>SuccessAll := False\<rparr> else r, w))\<rparr>"

definition ex_world :: "(nat, nat) world" where
  "ex_world =
     \<lparr>exec = \<lparr>Executions = 0, canceled = False, canceledIndex = - 1, canceledResult = None,
              Context = None\<rparr>,
      user = 0, trace = []\<rparr>"

definition ex_inner :: "(nat, nat) exec_fn" where
  "ex_inner = userAttempt ex_sp ex_fn"

definition ex_timeoutResult :: "nat ExecutionResult" where
  "ex_timeoutResult = FailureResult 0 ErrTimeoutExceeded"



section \<open>Classification of a timeout\<close>

lemma wraps_imp_is_loop: "wraps a b \<Longrightarrow> is_loop b t \<Longrightarrow> is_loop a t"
proof (induction rule: wraps.induct)
  case (wraps_one m e)
  then show ?case by simp
next
  case (wraps_join e es)
  then show ?case by auto
next
  case (wraps_trans a b c)
  then show ?case by blast
qed

lemma is_loop_refl: "is_loop e e"
  by (cases e) simp_all

lemma is_loop_imp_is_or_wraps: "is_loop e t \<Longrightarrow> is_or_wraps e t"
proof (induction e t rule: is_loop.induct)
  case (1 m inner target)
  then show ?case
    unfolding is_or_wraps_def
    by (metis is_loop.simps(1) wraps_one wraps_trans)
next
  case (2 es target)
  then show ?case
    unfolding is_or_wraps_def
    by (metis is_loop.simps(2) wraps_join wraps_trans)
qed (simp_all add: is_or_wraps_def)

lemma is_loop_iff: "is_loop e t \<longleftrightarrow> is_or_wraps e t"
  using is_loop_imp_is_or_wraps wraps_imp_is_loop is_loop_refl
  unfolding is_or_wraps_def by blast



text \<open>
  C8. \<^verbatim>\<open>IsFailure(result)\<close> of the timeout policy is true exactly when the error of
  the result is not nil and is, or wraps, \<^verbatim>\<open>ErrTimeoutExceeded\<close>.
\<close>

theorem IsFailure_iff:
  "IsFailure result \<longleftrightarrow> (\<exists>e. Err result = Some e \<and> is_or_wraps e ErrTimeoutExceeded)"
  by (cases "Err result") (simp_all add: IsFailure_def errors_Is_def is_loop_iff)

theorem IsFailure_iff_witness:
  "IsFailure \<lparr>Result = (0::nat),
              Err = Some (ErrWrap ''get'' (ErrJoin [ErrOther ''x'', ErrTimeoutExceeded])),
              Complete = True, Success = False, SuccessAll = False\<rparr>
   \<and> \<not> IsFailure \<lparr>Result = (0::nat), Err = Some (ErrOther ''timeout exceeded''),
                   Complete = True, Success = True, SuccessAll = True\<rparr>
   \<and> \<not> IsFailure \<lparr>Result = (0::nat), Err = None, Complete = True, Success = True,
                   SuccessAll = True\<rparr>"
  using IsFailure_iff[of "\<lparr>Result = (0::nat),
              Err = Some (ErrWrap ''get'' (ErrJoin [ErrOther ''x'', ErrTimeoutExceeded])),
              Complete = True, Success = False, SuccessAll = False\<rparr>"]
  by (simp add: IsFailure_def errors_Is_def)

section \<open>Policy indices\<close>

lemma compose_loop_calls:
  "snd (compose_loop ps i k (f, cs)) = cs @ map (\<lambda>j. (i - int j, k + int j)) [0..<nat (i + 1)]"
proof (induction ps i k "(f, cs)" arbitrary: f cs rule: compose_loop.induct)
  case (1 ps i policyIndex outerFn calls)
  show ?case
  proof (cases "i \<ge> 0")
    case True
    have n: "nat (i + 1) = Suc (nat i)" using True by simp
    have "map (\<lambda>j. (i - int j, policyIndex + int j)) [0..<Suc (nat i)]
          = (i, policyIndex) # map (\<lambda>j. (i - 1 - int j, policyIndex + 1 + int j)) [0..<nat i]"
      by (simp add: upt_conv_Cons map_Suc_upt[symmetric] del: upt_Suc)
    with 1(1)[OF True] True n show ?thesis
      by (simp add: compose_loop.simps[of ps i])
  next
    case False
    then show ?thesis by (simp add: compose_loop.simps[of ps i])
  qed
qed

lemma ToExecutor_calls_map:
  "ToExecutor_calls sp e fn =
     map (\<lambda>k. (int (length (policies e)) - 1 - int k, int k)) [0..<length (policies e)]"
  by (simp add: ToExecutor_calls_def compose_def compose_loop_calls)

text \<open>
  C1, as the claim has it, fails: of two policies the outermost, at position 0 of
  \<^verbatim>\<open>e.policies\<close>, is given the index 1.
\<close>

theorem outermost_index_counterexample:
  "map_of (ToExecutor_calls ex_sp (ex_executor [ex_pass, ex_retry]) ex_fn) 0 = Some 1
   \<and> map_of (ToExecutor_calls ex_sp (ex_executor [ex_pass, ex_retry]) ex_fn) 0 \<noteq> Some 0"
  by (simp add: ToExecutor_calls_map ex_executor_def)

text \<open>
  C1, amended. For an executor of \<open>n\<close> policies the calls of \<^verbatim>\<open>ToExecutor\<close>, in the
  order made, pass the indices \<open>0, 1, \<dots>, n-1\<close>, and the \<open>k\<close>-th call is on the policy at
  position \<open>n-1-k\<close>: index 0 goes to the innermost policy, \<open>n-1\<close> to the outermost (a
  smaller index is further in).
\<close>

theorem policy_indices:
  "ToExecutor_calls sp e fn =
     map (\<lambda>k. (int (length (policies e)) - 1 - int k, int k)) [0..<length (policies e)]
   \<and> map snd (ToExecutor_calls sp e fn) = map int [0..<length (policies e)]"
  by (simp add: ToExecutor_calls_map comp_def)

theorem policy_indices_witness:
  "ToExecutor_calls ex_sp (ex_executor [ex_pass, ex_retry, ex_pass]) ex_fn
     = [(2, 0), (1, 1), (0, 2)]"
  using policy_indices[of ex_sp "ex_executor [ex_pass, ex_retry, ex_pass]" ex_fn]
  by (simp add: ex_executor_def upt_conv_Cons)

section \<open>Cancellation\<close>

text \<open>
  C6. When the context is done the watcher makes one call, \<^verbatim>\<open>Cancel\<close> with the index
  \<^verbatim>\<open>MaxInt\<close> and a result whose error is what \<^verbatim>\<open>ctx.Err()\<close> returned and whose
  \<^verbatim>\<open>Complete\<close> is true (the other fields keep their zero values); when the execution
  ends first it makes none.
\<close>

theorem watcher_CtxDone:
  "(watcher zero ctxErr CtxDone = Some (CancelCall policyIndex r)
      \<longleftrightarrow> policyIndex = MaxInt
          \<and> r = \<lparr>Result = zero, Err = ctxErr, Complete = True, Success = False,
                  SuccessAll = False\<rparr>)
   \<and> watcher zero ctxErr ExecutionDone = None"
  by (auto simp add: watcher_def)

theorem watcher_CtxDone_witness:
  "watcher (0::nat) (Some (ErrOther ''context canceled'')) CtxDone
     = Some (CancelCall (2 ^ 63 - 1)
               \<lparr>Result = 0, Err = Some (ErrOther ''context canceled''), Complete = True,
                Success = False, SuccessAll = False\<rparr>)"
  using watcher_CtxDone[of "0::nat" "Some (ErrOther ''context canceled'')" MaxInt
      "\<lparr>Result = 0, Err = Some (ErrOther ''context canceled''), Complete = True,
        Success = False, SuccessAll = False\<rparr>"]
  by (simp add: MaxInt_def)

section \<open>Building executors\<close>

text \<open>
  C3, as the claim has it, fails: \<^verbatim>\<open>OnSuccess\<close> returns its receiver, whose listener it
  has replaced.
\<close>

theorem listener_setter_counterexample:
  "fst (then_call (With ex_pass [] []) (OnSuccess (Some ex_listener))) = fst (With ex_pass [] [])
   \<and> onSuccess (snd (With ex_pass [] []) ! fst (With ex_pass [] [])) = None
   \<and> onSuccess (snd (then_call (With ex_pass [] []) (OnSuccess (Some ex_listener)))
                  ! fst (With ex_pass [] [])) \<noteq> None"
  by (simp add: then_call_def With_def OnSuccess_def)

text \<open>
  C3, amended. \<^verbatim>\<open>WithContext\<close> returns a new executor, equal to the receiver but for
  the context, and leaves the receiver and every other executor as they were. The setters
  \<^verbatim>\<open>OnComplete\<close>, \<^verbatim>\<open>OnSuccess\<close> and \<^verbatim>\<open>OnFailure\<close> return the receiver itself, with
  the one listener replaced and its policies, context and other listeners as they were,
  and leave every other executor as it was.
\<close>

theorem mutators_frame:
  assumes "e < length h"
  shows "(fst (WithContext c e h) \<noteq> e
          \<and> deref (WithContext c e h) = (h ! e)\<lparr>ctx := c\<rparr>
          \<and> (\<forall>a < length h. snd (WithContext c e h) ! a = h ! a))
       \<and> (fst (OnComplete l e h) = e
          \<and> deref (OnComplete l e h) = (h ! e)\<lparr>onComplete := l\<rparr>
          \<and> (\<forall>a. a \<noteq> e \<longrightarrow> snd (OnComplete l e h) ! a = h ! a))
       \<and> (fst (OnSuccess l e h) = e
          \<and> deref (OnSuccess l e h) = (h ! e)\<lparr>onSuccess := l\<rparr>
          \<and> (\<forall>a. a \<noteq> e \<longrightarrow> snd (OnSuccess l e h) ! a = h ! a))
       \<and> (fst (OnFailure l e h) = e
          \<and> deref (OnFailure l e h) = (h ! e)\<lparr>onFailure := l\<rparr>
          \<and> (\<forall>a. a \<noteq> e \<longrightarrow> snd (OnFailure l e h) ! a = h ! a))"
  using assms
  by (simp add: deref_def WithContext_def OnComplete_def OnSuccess_def OnFailure_def nth_append)

theorem mutators_frame_witness:
  "(0::nat) < length (snd (With ex_pass [ex_retry] []))
   \<and> fst (WithContext (Some 5) 0 (snd (With ex_pass [ex_retry] []))) = 1
   \<and> ctx (deref (WithContext (Some 5) 0 (snd (With ex_pass [ex_retry] [])))) = Some 5
   \<and> ctx (snd (WithContext (Some 5) 0 (snd (With ex_pass [ex_retry] []))) ! 0) = None
   \<and> fst (OnFailure (Some ex_listener) 0 (snd (With ex_pass [ex_retry] []))) = 0"
proof -
  have h: "(0::nat) < length (snd (With ex_pass [ex_retry] []))"
    by (simp add: With_def)
  show ?thesis
    using h mutators_frame[OF h, of "Some 5" "Some ex_listener"]
    by (simp add: With_def WithContext_def deref_def)
qed

text \<open>
  C5. \<^verbatim>\<open>With(A).Compose(B).Compose(C)\<close>, \<^verbatim>\<open>With(A, B, C)\<close> and
  \<^verbatim>\<open>With(A, B).Compose(C)\<close> give executors with the same list of policies, \<open>[A, B, C]\<close>,
  and the same nil context and listeners; \<^verbatim>\<open>execute\<close> returns the same on them for every
  user function and every state of its world.
\<close>

theorem Compose_assoc:
  "deref (then_call (then_call (With A [] h1) (Compose B)) (Compose C)) = deref (With A [B, C] h2)
   \<and> deref (With A [B, C] h2) = deref (then_call (With A [B] h3) (Compose C))
   \<and> policies (deref (With A [B, C] h2)) = [A, B, C]
   \<and> execute sp (deref (then_call (then_call (With A [] h1) (Compose B)) (Compose C)))
        fn withExecution u0
       = execute sp (deref (With A [B, C] h2)) fn withExecution u0
   \<and> execute sp (deref (With A [B, C] h2)) fn withExecution u0
       = execute sp (deref (then_call (With A [B] h3) (Compose C))) fn withExecution u0"
  by (simp add: deref_def then_call_def With_def Compose_def)

theorem Compose_assoc_witness:
  "policies (deref (then_call (then_call (With ex_pass [] []) (Compose ex_retry)) (Compose ex_pass)))
     = [ex_pass, ex_retry, ex_pass]"
  using Compose_assoc[of ex_pass "[]" ex_retry ex_pass "[]" "[]" ex_sp ex_fn False "0::nat"]
  by (simp add: deref_def then_call_def With_def Compose_def)

section \<open>One execution\<close>




















section \<open>The race of the timeout\<close>

lemma tinv_init: "tinv zero te (init_cfg w)"
  by (simp add: tinv_def init_cfg_def)


lemma tinv_main_step: "tinv zero te c \<Longrightarrow> tinv zero te (main_step te innerFn c)"
  unfolding tinv_def main_step_def Let_def
  by (cases "mainPc c"; cases "timerPc c") (auto split: option.splits)

lemma tinv_timer_step: "tinv zero te c \<Longrightarrow> tinv zero te (timer_step zero te c)"
  unfolding tinv_def timer_step_def Let_def
  by (cases "timerPc c"; cases "mainPc c") (auto split: option.splits)

lemma tinv_run: "tinv zero te c \<Longrightarrow> tinv zero te (run zero te innerFn sched c)"
  unfolding run_def
  by (induction sched arbitrary: c)
     (simp_all add: step_def tinv_main_step tinv_timer_step split: thread.splits)

lemma tinv_reachable: "tinv zero te (run zero te innerFn sched (init_cfg w))"
  by (rule tinv_run[OF tinv_init])




lemma run_append: "run zero te innerFn (s1 @ s2) c = run zero te innerFn s2 (run zero te innerFn s1 c)"
  by (simp add: run_def)

lemma tinvD_winner:
  "tinv zero te c \<Longrightarrow>
     casWinners c = [] \<and> slot c = None
     \<or> casWinners c = [Timer] \<and> slot c = Some (FailureResult zero ErrTimeoutExceeded)
     \<or> casWinners c = [Inline] \<and> (\<exists>r. slot c = Some r \<and> innerResult c = Some r)"
  by (simp add: tinv_def Let_def)


lemma tinvD_main:
  "tinv zero te c \<Longrightarrow>
      (mainPc c = MInner \<longrightarrow>
          casWinners c \<noteq> [Inline] \<and> innerResult c = None)
    \<and> (\<forall>r. mainPc c = MCas r \<longrightarrow>
          casWinners c \<noteq> [Inline] \<and> innerResult c = Some r)
    \<and> (mainPc c = MStop \<longrightarrow> casWinners c = [Inline])
    \<and> (mainPc c = MPost \<longrightarrow>
          slot c \<noteq> None
            \<and> (casWinners c = [Inline] \<longrightarrow> timerPc c \<noteq> TArmed))
    \<and> (\<forall>r. mainPc c = MDone r \<longrightarrow>
          slot c \<noteq> None
            \<and> (casWinners c = [Inline] \<longrightarrow> timerPc c \<noteq> TArmed)
            \<and> (\<exists>w0 w1. postExecuteCall c = Some (the (slot c), w0)
                  \<and> PostExecute te (the (slot c)) w0 = Some (r, w1)))
    \<and> mainPc c \<noteq> MNil
    \<and> stopCalls c = (if casWinners c = [Inline] \<and> mainPc c \<noteq> MStop then 1 else 0)"
  by (simp add: tinv_def Let_def)







lemma ex_run_timer_first:
  "run 0 ex_te ex_inner [Timer, Timer, Inline, Inline] (init_cfg ex_world) =
     \<lparr>slot = Some ex_timeoutResult, mainPc = MPost, timerPc = TCancel,
      tworld = \<lparr>exec = \<lparr>Executions = 1, canceled = False, canceledIndex = - 1,
                        canceledResult = None, Context = None\<rparr>,
                user = 1, trace = [UserFn]\<rparr>,
      casWinners = [Timer],
      innerResult = Some \<lparr>Result = 42, Err = None, Complete = True, Success = True,
                          SuccessAll = True\<rparr>,
      cancelCalls = [], timeoutEvents = [], stopCalls = 0, postExecuteCall = None\<rparr>"
  by (simp add: run_def step_def main_step_def timer_step_def init_cfg_def ex_world_def
      ex_inner_def userAttempt_def ex_fn_def ex_sp_def ex_te_def ex_timeoutResult_def
      FailureResult_def Let_def)



text \<open>
  C10. Under every schedule the caller never loads a nil pointer for
  \<^verbatim>\<open>PostExecute\<close>: when it comes to \<^verbatim>\<open>result.Load()\<close> the slot is set, and if its
  own compare-and-swap did not win the slot holds the timeout result the timer stored.
\<close>

theorem Load_never_nil:
  "(let c = run zero te innerFn sched (init_cfg w) in
      mainPc c \<noteq> MNil
      \<and> (mainPc c = MPost \<longrightarrow> slot c \<noteq> None)
      \<and> (mainPc c = MPost \<and> casWinners c \<noteq> [Inline] \<longrightarrow>
            slot c = Some (FailureResult zero ErrTimeoutExceeded)))"
proof -
  define c where "c = run zero te innerFn sched (init_cfg w)"
  have inv: "tinv zero te c" unfolding c_def by (rule tinv_reachable)
  from tinvD_main[OF inv] have m: "mainPc c \<noteq> MNil" "mainPc c = MPost \<longrightarrow> slot c \<noteq> None"
    by simp_all
  from tinvD_winner[OF inv] m(2)
  have "mainPc c = MPost \<and> casWinners c \<noteq> [Inline] \<longrightarrow>
            slot c = Some (FailureResult zero ErrTimeoutExceeded)" by auto
  with m show ?thesis unfolding c_def[symmetric] Let_def by simp
qed



theorem Load_never_nil_witness:
  "mainPc (run 0 ex_te ex_inner [Timer, Timer, Inline, Inline] (init_cfg ex_world)) = MPost
   \<and> casWinners (run 0 ex_te ex_inner [Timer, Timer, Inline, Inline] (init_cfg ex_world))
       \<noteq> [Inline]
   \<and> slot (run 0 ex_te ex_inner [Timer, Timer, Inline, Inline] (init_cfg ex_world))
       = Some (FailureResult 0 ErrTimeoutExceeded)"
  using Load_never_nil[of 0 ex_te ex_inner "[Timer, Timer, Inline, Inline]" ex_world]
  by (simp add: ex_run_timer_first Let_def)




end
